theory Spec2Isabelle
  imports Complex_Main
begin

section \<open>Numbers, landmarks and the gesture state\<close>

text \<open>
  The script computes with JavaScript numbers. They are modelled as exact reals: rounding,
  infinities and NaN are outside the model, and every place where the script would fail
  or leave the reals (a property read on \<open>undefined\<close>) is an explicit error value.

  A landmark is the detector's \<open>{x, y, z}\<close> object. The fields are named \<open>lm_x\<close>,
  \<open>lm_y\<close>, \<open>lm_z\<close> here, because a record field is a constant of the theory and
  \<open>x\<close>, \<open>y\<close>, \<open>z\<close> are needed as variables.
\<close>

record landmark =
  lm_x :: real
  lm_y :: real
  lm_z :: real

text \<open>\<open>result.landmarks\<close>: one landmark array per detected hand, or absent.\<close>

record detection =
  landmarks :: "landmark list list option"

text \<open>The values of the global \<open>mode\<close> (line 15 and the assignments of \<open>handleGestures\<close>).\<close>

datatype shape_mode = TREE | EXPLODE | SPHERE | FUYO

text \<open>
  What \<open>handleGestures\<close> writes: the global \<open>mode\<close>, \<open>statusDiv.innerText\<close>,
  \<open>statusDiv.style.color\<close> and \<open>controls.autoRotateSpeed\<close>.
\<close>

record gesture_state =
  mode :: shape_mode
  statusText :: string
  statusColor :: string
  autoRotateSpeed :: real

text \<open>
  \<open>TypeError\<close> is the exception of a property read on \<open>undefined\<close>.
  \<open>NotANumber\<close> is no exception: it marks a computation whose JavaScript value is
  NaN (arithmetic on an out-of-range read of a typed array), which the reals do not have.
\<close>

datatype js_error = TypeError | NotANumber

text \<open>\<open>Math.hypot\<close> of two arguments.\<close>

definition hypot :: "real \<Rightarrow> real \<Rightarrow> real" where
  "hypot a b = sqrt (a\<^sup>2 + b\<^sup>2)"

text \<open>
  \<open>landmarks[k]\<close> followed by a property read: an index past the end of the array gives
  \<open>undefined\<close>, and reading \<open>.x\<close> of it throws a TypeError.
\<close>

definition landmarkAt :: "landmark list \<Rightarrow> nat \<Rightarrow> js_error + landmark" where
  "landmarkAt lms k = (if k < length lms then Inr (lms ! k) else Inl TypeError)"

text \<open>Sequencing: a thrown error ends the computation, a value is passed on.\<close>

definition andThen :: "js_error + 'a \<Rightarrow> ('a \<Rightarrow> js_error + 'b) \<Rightarrow> js_error + 'b" where
  "andThen r f = (case r of Inl e \<Rightarrow> Inl e | Inr v \<Rightarrow> f v)"

section \<open>The gesture classifier (\<open>handleGestures\<close>, lines 432 to 502)\<close>

definition tips :: "nat list" where
  "tips = [8, 12, 16, 20]"

definition bases :: "nat list" where
  "bases = [5, 9, 13, 17]"

text \<open>
  The comparison of lines 447 to 450 and of lines 471 and 472: the tip is farther from the
  wrist than the base knuckle times a ratio (1.2 in the loop, 1.1 for the victory test).
\<close>

definition fartherThan :: "real \<Rightarrow> landmark \<Rightarrow> landmark \<Rightarrow> landmark \<Rightarrow> bool" where
  "fartherThan ratio wrist tip base \<longleftrightarrow>
     hypot (lm_x tip - lm_x wrist) (lm_y tip - lm_y wrist)
       > hypot (lm_x base - lm_x wrist) (lm_y base - lm_y wrist) * ratio"

text \<open>
  The loop of lines 442 to 453 over the index pairs \<open>(tips[i], bases[i])\<close>, with the
  counter \<open>openFingers\<close> as accumulator. The state is untouched when a read throws, so
  the order of the three reads within one round does not show.
\<close>

fun countOpen :: "landmark list \<Rightarrow> (nat \<times> nat) list \<Rightarrow> nat \<Rightarrow> js_error + nat" where
  "countOpen lms [] n = Inr n"
| "countOpen lms ((t, b) # rest) n =
     andThen (landmarkAt lms t) (\<lambda>tip.
     andThen (landmarkAt lms b) (\<lambda>base.
     andThen (landmarkAt lms 0) (\<lambda>wrist.
       countOpen lms rest (if fartherThan 1.2 wrist tip base then n + 1 else n))))"

definition openFingers :: "landmark list \<Rightarrow> js_error + nat" where
  "openFingers lms = countOpen lms (zip tips bases) 0"

text \<open>Lines 462 to 464, 471 and 472, for a hand that has all its landmarks.\<close>

definition thumbIndexDist :: "landmark list \<Rightarrow> real" where
  "thumbIndexDist lms =
     hypot (lm_x (lms ! 4) - lm_x (lms ! 8)) (lm_y (lms ! 4) - lm_y (lms ! 8))"

definition isIndexOpen :: "landmark list \<Rightarrow> bool" where
  "isIndexOpen lms = fartherThan 1.1 (lms ! 0) (lms ! 8) (lms ! 5)"

definition isMiddleOpen :: "landmark list \<Rightarrow> bool" where
  "isMiddleOpen lms = fartherThan 1.1 (lms ! 0) (lms ! 12) (lms ! 9)"

text \<open>
  The status labels. A string of the theory is a list of bytes, so the two emoji of the
  labels are written as the UTF-8 bytes of the source file (U+1F44C; U+270C U+FE0F).
\<close>

definition okLabel :: string where
  "okLabel = ''Status: OK Sign ('' @ [CHR 0xF0, CHR 0x9F, CHR 0x91, CHR 0x8C]
     @ '') -> Sphere Mode!''"

definition victoryLabel :: string where
  "victoryLabel = ''Status: Victory ('' @ [CHR 0xE2, CHR 0x9C, CHR 0x8C, CHR 0xEF, CHR 0xB8, CHR 0x8F]
     @ '') -> FUYO Mode!''"

text \<open>
  Lines 455 to 488, \<open>Detect States\<close>: the branch on \<open>openFingers\<close> comes first, the
  thumb, index and middle landmarks are read in the else branch only.
\<close>

definition detectStates :: "landmark list \<Rightarrow> nat \<Rightarrow> gesture_state \<Rightarrow> js_error + gesture_state" where
  "detectStates lms n st =
     (if n \<ge> 3 then
        Inr (st\<lparr>mode := EXPLODE, statusText := ''Status: Hand OPEN -> Explode!'',
                statusColor := ''#ff0000''\<rparr>)
      else
        andThen (landmarkAt lms 4) (\<lambda>thumbTip.
        andThen (landmarkAt lms 8) (\<lambda>indexTip.
        andThen (landmarkAt lms 5) (\<lambda>indexBase.
        andThen (landmarkAt lms 12) (\<lambda>middleTip.
        andThen (landmarkAt lms 9) (\<lambda>middleBase.
        andThen (landmarkAt lms 0) (\<lambda>wrist.
          (if hypot (lm_x thumbTip - lm_x indexTip) (lm_y thumbTip - lm_y indexTip) < 0.05 then
             Inr (st\<lparr>mode := SPHERE, statusText := okLabel, statusColor := ''#00ffff''\<rparr>)
           else if n = 2 \<and> fartherThan 1.1 wrist indexTip indexBase
                   \<and> fartherThan 1.1 wrist middleTip middleBase then
             Inr (st\<lparr>mode := FUYO, statusText := victoryLabel, statusColor := ''#ffff00''\<rparr>)
           else
             Inr (st\<lparr>mode := TREE, statusText := ''Status: Hand CLOSED -> Assemble Tree'',
                     statusColor := ''#00ff00''\<rparr>)))))))))"

text \<open>
  \<open>handleGestures\<close>: only \<open>result.landmarks[0]\<close>, the first hand, is looked at. An absent
  or empty \<open>result.landmarks\<close> takes the else branch of line 495.
\<close>

definition handleGestures :: "detection \<Rightarrow> gesture_state \<Rightarrow> js_error + gesture_state" where
  "handleGestures result st =
     (case landmarks result of
        Some (lms # others) \<Rightarrow>
          andThen (openFingers lms) (\<lambda>n.
          andThen (detectStates lms n st) (\<lambda>st'.
          andThen (landmarkAt lms 9) (\<lambda>l9.
            Inr (st'\<lparr>autoRotateSpeed := (lm_x l9 - 0.5) * 5\<rparr>))))
      | _ \<Rightarrow>
          Inr (st\<lparr>mode := TREE, statusText := ''Status: No hand detected (Auto Tree)'',
                  statusColor := ''#fff'', autoRotateSpeed := 1.0\<rparr>))"

text \<open>The mode and the rotation speed of an outcome, when there is one.\<close>

definition modeOf :: "js_error + gesture_state \<Rightarrow> shape_mode option" where
  "modeOf r = (case r of Inl e \<Rightarrow> None | Inr st \<Rightarrow> Some (mode st))"

definition speedOf :: "js_error + gesture_state \<Rightarrow> real option" where
  "speedOf r = (case r of Inl e \<Rightarrow> None | Inr st \<Rightarrow> Some (autoRotateSpeed st))"

text \<open>
  A state before the first detection: \<open>mode\<close> and \<open>autoRotateSpeed\<close> as initialised at
  lines 15 and 33. The first content of the status element is not part of the script; an
  empty label stands for it.
\<close>

definition startState :: gesture_state where
  "startState = \<lparr>mode = TREE, statusText = [], statusColor = [], autoRotateSpeed = 1.0\<rparr>"

subsection \<open>Example hands\<close>

text \<open>
  Hands of 21 landmarks on the vertical line \<open>x = c\<close>, given by their \<open>y\<close> coordinates:
  wrist, four thumb joints (tip last), then base knuckle, two joints and tip of the index,
  middle, ring and little finger. The wrist is at 0.9, every base knuckle at 0.6.
\<close>

definition handOnLine :: "real \<Rightarrow> real list \<Rightarrow> landmark list" where
  "handOnLine c ys = map (\<lambda>v. \<lparr>lm_x = c, lm_y = v, lm_z = 0\<rparr>) ys"

definition openPalm :: "landmark list" where
  "openPalm = handOnLine 0.5
     [0.9, 0.8, 0.7, 0.6, 0.5, 0.6, 0.5, 0.4, 0.2, 0.6, 0.5, 0.4, 0.2,
      0.6, 0.5, 0.4, 0.2, 0.6, 0.5, 0.4, 0.2]"

text \<open>An open hand whose thumb tip lies on the index tip.\<close>

definition openPinched :: "landmark list" where
  "openPinched = handOnLine 0.5
     [0.9, 0.8, 0.7, 0.6, 0.2, 0.6, 0.5, 0.4, 0.2, 0.6, 0.5, 0.4, 0.2,
      0.6, 0.5, 0.4, 0.2, 0.6, 0.5, 0.4, 0.2]"

definition fist :: "landmark list" where
  "fist = handOnLine 0.5
     [0.9, 0.8, 0.7, 0.6, 0.5, 0.6, 0.62, 0.66, 0.7, 0.6, 0.62, 0.66, 0.7,
      0.6, 0.62, 0.66, 0.7, 0.6, 0.62, 0.66, 0.7]"

text \<open>A closed hand whose thumb tip is 0.02 away from the index tip.\<close>

definition pinchHand :: "landmark list" where
  "pinchHand = handOnLine 0.5
     [0.9, 0.8, 0.7, 0.6, 0.72, 0.6, 0.62, 0.66, 0.7, 0.6, 0.62, 0.66, 0.7,
      0.6, 0.62, 0.66, 0.7, 0.6, 0.62, 0.66, 0.7]"

text \<open>Index and middle finger stretched, ring and little finger closed, at \<open>x = 0.7\<close>.\<close>

definition victoryHand :: "landmark list" where
  "victoryHand = handOnLine 0.7
     [0.9, 0.8, 0.7, 0.6, 0.5, 0.6, 0.5, 0.4, 0.2, 0.6, 0.5, 0.4, 0.2,
      0.6, 0.62, 0.66, 0.7, 0.6, 0.62, 0.66, 0.7]"

section \<open>The particle buffers (lines 265 to 379)\<close>

definition PARTICLE_COUNT :: nat where
  "PARTICLE_COUNT = 3000"

definition TREE_HEIGHT :: real where
  "TREE_HEIGHT = 40"

definition TREE_RADIUS :: real where
  "TREE_RADIUS = 15"

definition EXPLOSION_RADIUS :: real where
  "EXPLOSION_RADIUS = 80"

text \<open>
  \<open>pData\<close> of one letter, with the local \<open>colors\<close> array: six \<open>Float32Array\<close>s, modelled as
  lists of reals (the rounding to single precision is not modelled).
\<close>

record particle_data =
  positions :: "real list"
  targetPositions :: "real list"
  randomPositions :: "real list"
  spherePositions :: "real list"
  fuyoPositions :: "real list"
  colors :: "real list"

text \<open>The three \<open>THREE.Color\<close> objects of lines 296 to 298.\<close>

datatype palette = Green | Gold | Red

definition color1 :: palette where
  "color1 = Green"

definition color2 :: palette where
  "color2 = Gold"

definition color3 :: palette where
  "color3 = Red"

text \<open>
  Lines 349 to 351. Each test calls \<open>Math.random()\<close> anew: \<open>u1\<close> is the draw of the first
  test, \<open>u2\<close> the draw of the second.
\<close>

definition pickColor :: "real \<Rightarrow> real \<Rightarrow> palette" where
  "pickColor u1 u2 =
     (let c = color1;
          c = (if u1 > 0.70 then color2 else c);
          c = (if u2 > 0.90 then color3 else c)
      in c)"

text \<open>Lines 304 to 313: the tree point for the global index and the jitter draw \<open>u\<close>.\<close>

definition treePoint :: "nat \<Rightarrow> real \<Rightarrow> real \<times> real \<times> real" where
  "treePoint totalIndex u =
     (let t = real totalIndex / real PARTICLE_COUNT;
          angle = t * pi * 40;
          radius = (1 - t) * TREE_RADIUS;
          r = radius + (u - 0.5) * 2
      in (cos angle * r, t * TREE_HEIGHT - (TREE_HEIGHT / 2), sin angle * r))"

text \<open>Lines 324 to 330, with the three draws in the order of the calls.\<close>

definition explodePoint :: "real \<Rightarrow> real \<Rightarrow> real \<Rightarrow> real \<times> real \<times> real" where
  "explodePoint u1 u2 u3 =
     (let theta = u1 * pi * 2;
          phi = arccos ((u2 * 2) - 1);
          rad = u3 * EXPLOSION_RADIUS
      in (rad * sin phi * cos theta, rad * sin phi * sin theta, rad * cos phi))"

text \<open>Lines 333 to 339.\<close>

definition spherePoint :: "real \<Rightarrow> real \<Rightarrow> real \<times> real \<times> real" where
  "spherePoint u1 u2 =
     (let sR = 25;
          sTheta = u1 * pi * 2;
          sPhi = arccos ((u2 * 2) - 1)
      in (sR * sin sPhi * cos sTheta, sR * sin sPhi * sin sTheta, sR * cos sPhi))"

text \<open>
  Writing and reading the three components of particle \<open>i\<close> in a buffer. A typed array
  ignores a write past its end, as the list update does.
\<close>

definition setXYZ :: "real list \<Rightarrow> nat \<Rightarrow> real \<times> real \<times> real \<Rightarrow> real list" where
  "setXYZ buf i p = (case p of (a, b, c) \<Rightarrow> buf[i * 3 := a, i * 3 + 1 := b, i * 3 + 2 := c])"

definition pointAt :: "real list \<Rightarrow> nat \<Rightarrow> real \<times> real \<times> real" where
  "pointAt buf i = (buf ! (i * 3), buf ! (i * 3 + 1), buf ! (i * 3 + 2))"

text \<open>The distance of a point from the origin.\<close>

definition dist0 :: "real \<times> real \<times> real \<Rightarrow> real" where
  "dist0 p = (case p of (a, b, c) \<Rightarrow> sqrt (a\<^sup>2 + b\<^sup>2 + c\<^sup>2))"

text \<open>
  One round of the loop of lines 300 to 356 for the letter number \<open>index\<close>. \<open>rnd\<close> is the
  sequence of values that the calls of \<open>Math.random()\<close> return and \<open>k\<close> counts the calls
  made so far; a round makes eight. \<open>rgb\<close> gives the components \<open>c.r\<close>, \<open>c.g\<close>, \<open>c.b\<close> of
  a colour object, which the graphics library computes. \<open>fuyoAll\<close> is the buffer
  \<open>fuyoAllPositions\<close> of \<open>PARTICLE_COUNT * 3\<close> numbers.
\<close>

definition particleRound ::
  "nat \<Rightarrow> real list \<Rightarrow> (nat \<Rightarrow> real) \<Rightarrow> (palette \<Rightarrow> real \<times> real \<times> real) \<Rightarrow> nat
     \<Rightarrow> particle_data \<times> nat \<Rightarrow> particle_data \<times> nat" where
  "particleRound index fuyoAll rnd rgb i s =
     (case s of (pData, k) \<Rightarrow>
        let totalIndex = i * 3 + index;
            tree = treePoint totalIndex (rnd k);
            c = pickColor (rnd (k + 6)) (rnd (k + 7))
        in (pData\<lparr>targetPositions := setXYZ (targetPositions pData) i tree,
                  positions := setXYZ (positions pData) i tree,
                  randomPositions := setXYZ (randomPositions pData) i
                     (explodePoint (rnd (k + 1)) (rnd (k + 2)) (rnd (k + 3))),
                  spherePositions := setXYZ (spherePositions pData) i
                     (spherePoint (rnd (k + 4)) (rnd (k + 5))),
                  fuyoPositions := setXYZ (fuyoPositions pData) i
                     (fuyoAll ! (totalIndex * 3), fuyoAll ! (totalIndex * 3 + 1),
                      fuyoAll ! (totalIndex * 3 + 2)),
                  colors := setXYZ (colors pData) i (rgb c)\<rparr>,
            k + 8))"

text \<open>The fresh buffers of lines 284 to 292, \<open>new Float32Array(count * 3)\<close> each.\<close>

definition freshData :: "nat \<Rightarrow> particle_data" where
  "freshData count =
     \<lparr>positions = replicate (count * 3) 0, targetPositions = replicate (count * 3) 0,
      randomPositions = replicate (count * 3) 0, spherePositions = replicate (count * 3) 0,
      fuyoPositions = replicate (count * 3) 0, colors = replicate (count * 3) 0\<rparr>"

text \<open>
  The body of \<open>letters.forEach\<close> for one letter: \<open>count = Math.floor(PARTICLE_COUNT / 3)\<close>
  rounds, starting with the \<open>k\<close>-th call of \<open>Math.random()\<close>.
\<close>

definition makeGroup ::
  "nat \<Rightarrow> real list \<Rightarrow> (nat \<Rightarrow> real) \<Rightarrow> (palette \<Rightarrow> real \<times> real \<times> real) \<Rightarrow> nat
     \<Rightarrow> particle_data \<times> nat" where
  "makeGroup index fuyoAll rnd rgb k =
     (let count = PARTICLE_COUNT div 3
      in fold (particleRound index fuyoAll rnd rgb) [0..<count] (freshData count, k))"

section \<open>The glyph positions (\<open>getFuyoPositions\<close>, lines 218 to 263)\<close>

definition width :: nat where
  "width = 200"

definition height :: nat where
  "height = 100"

record pixel =
  px :: nat
  py :: nat

text \<open>
  \<open>imageData.data[index] > 128\<close> on the byte array of the canvas; a read past the end
  gives \<open>undefined\<close>, and the comparison is false.
\<close>

definition bright :: "nat list \<Rightarrow> nat \<Rightarrow> bool" where
  "bright imageData index \<longleftrightarrow> index < length imageData \<and> imageData ! index > 128"

text \<open>The two loops of lines 238 to 245, rows outside, in the order of the pushes.\<close>

definition validPixels :: "nat list \<Rightarrow> pixel list" where
  "validPixels imageData =
     [\<lparr>px = x, py = y\<rparr>. y \<leftarrow> [0..<height], x \<leftarrow> [0..<width],
        bright imageData ((y * width + x) * 4)]"

text \<open>
  \<open>validPixels[j]\<close> followed by the read of \<open>pixel.x\<close>, for the number \<open>j\<close> that
  \<open>Math.floor\<close> returns.
\<close>

definition pixelAt :: "pixel list \<Rightarrow> int \<Rightarrow> js_error + pixel" where
  "pixelAt ps j = (if 0 \<le> j \<and> nat j < length ps then Inr (ps ! nat j) else Inl TypeError)"

definition scale :: real where
  "scale = 0.4"

text \<open>
  The loop of lines 248 to 261 from round \<open>i\<close> on. The state is the number \<open>k\<close> of calls
  of \<open>Math.random()\<close> made so far and the buffer \<open>positions\<close>; the \<open>break\<close> of line 249
  returns the state as it is.
\<close>

function fuyoLoop ::
  "pixel list \<Rightarrow> (nat \<Rightarrow> real) \<Rightarrow> nat \<Rightarrow> nat \<Rightarrow> nat \<times> real list \<Rightarrow> js_error + nat \<times> real list" where
  "fuyoLoop valid rnd count i s =
     (if i < count then
        (if length valid = 0 then Inr s
         else
           (case pixelAt valid \<lfloor>rnd (fst s) * real (length valid)\<rfloor> of
              Inl e \<Rightarrow> Inl e
            | Inr pixel \<Rightarrow>
                fuyoLoop valid rnd count (i + 1)
                  (fst s + 2,
                   (snd s)[i * 3 := (real (px pixel) - real width / 2) * scale,
                           i * 3 + 1 := - (real (py pixel) - real height / 2) * scale + 20,
                           i * 3 + 2 := (rnd (fst s + 1) - 0.5) * 2])))
      else Inr s)"
  by pat_completeness auto
termination
  by (relation "measure (\<lambda>(valid, rnd, count, i, s). count - i)") auto

text \<open>
  \<open>getFuyoPositions(count)\<close>, given the bytes that \<open>getImageData\<close> returned for the drawn
  canvas. The result is the buffer together with the number of random draws made.
\<close>

definition getFuyoPositions ::
  "nat list \<Rightarrow> nat \<Rightarrow> (nat \<Rightarrow> real) \<Rightarrow> nat \<Rightarrow> js_error + nat \<times> real list" where
  "getFuyoPositions imageData count rnd k =
     fuyoLoop (validPixels imageData) rnd count 0 (k, replicate (count * 3) 0)"

section \<open>The animation step (\<open>animate\<close>, lines 506 to 556)\<close>

definition lerpSpeed :: real where
  "lerpSpeed = 0.05"

text \<open>The buffer that the chain of tests of lines 523 to 539 reads for a mode.\<close>

definition targetOf :: "shape_mode \<Rightarrow> particle_data \<Rightarrow> real list" where
  "targetOf m data =
     (if m = TREE then targetPositions data
      else if m = SPHERE then spherePositions data
      else if m = FUYO then fuyoPositions data
      else randomPositions data)"

text \<open>
  One line of 542 to 544 at the buffer index \<open>j\<close>: \<open>current[j] += (target[j] - current[j])
  * lerpSpeed\<close>. Past the end of \<open>current\<close> the write is ignored; a target read past its
  end would store NaN.
\<close>

definition lerpAt :: "real list \<Rightarrow> real list \<Rightarrow> nat \<Rightarrow> js_error + real list" where
  "lerpAt target current j =
     (if j < length current then
        (if j < length target
         then Inr (current[j := current ! j + (target ! j - current ! j) * lerpSpeed])
         else Inl NotANumber)
      else Inr current)"

text \<open>The body of the loop of line 516 for particle \<open>i\<close>: the three axes in turn.\<close>

definition animateParticle :: "real list \<Rightarrow> nat \<Rightarrow> real list \<Rightarrow> js_error + real list" where
  "animateParticle target i current =
     andThen (lerpAt target current (i * 3)) (\<lambda>c1.
     andThen (lerpAt target c1 (i * 3 + 1)) (\<lambda>c2.
     lerpAt target c2 (i * 3 + 2)))"

text \<open>A \<open>for\<close> loop over the indices of a list that ends when a round fails.\<close>

fun forEach :: "nat list \<Rightarrow> (nat \<Rightarrow> 's \<Rightarrow> js_error + 's) \<Rightarrow> 's \<Rightarrow> js_error + 's" where
  "forEach [] f s = Inr s"
| "forEach (i # rest) f s = andThen (f i s) (forEach rest f)"

text \<open>
  The callback of line 512 for one group. \<open>count = currentPositions.length / 3\<close> is a
  quotient of numbers, so the loop runs for every \<open>i\<close> with \<open>i * 3 < length\<close>. The mode
  is read in every round and no round changes it.
\<close>

definition animateGroup :: "shape_mode \<Rightarrow> particle_data \<Rightarrow> js_error + particle_data" where
  "animateGroup m data =
     (let currentPositions = positions data;
          count = real (length currentPositions) / 3
      in andThen (forEach [0..<nat \<lceil>count\<rceil>] (animateParticle (targetOf m data)) currentPositions)
           (\<lambda>current. Inr (data\<lparr>positions := current\<rparr>)))"

text \<open>\<open>allParticleData.forEach\<close> of one frame.\<close>

fun animate :: "shape_mode \<Rightarrow> particle_data list \<Rightarrow> js_error + particle_data list" where
  "animate m [] = Inr []"
| "animate m (data # rest) =
     andThen (animateGroup m data) (\<lambda>data'.
     andThen (animate m rest) (\<lambda>rest'. Inr (data' # rest')))"

text \<open>\<open>n\<close> frames of one group with the mode held fixed.\<close>

fun animateFrames :: "nat \<Rightarrow> shape_mode \<Rightarrow> particle_data \<Rightarrow> js_error + particle_data" where
  "animateFrames 0 m data = Inr data"
| "animateFrames (Suc n) m data = andThen (animateGroup m data) (animateFrames n m)"

section \<open>Observations\<close>

text \<open>
  The invariant of a group: the six buffers are \<open>Float32Array(count * 3)\<close> each
  (lines 284 to 292).
\<close>

definition wellFormed :: "nat \<Rightarrow> particle_data \<Rightarrow> bool" where
  "wellFormed count data \<longleftrightarrow>
     length (positions data) = count * 3 \<and> length (targetPositions data) = count * 3 \<and>
     length (randomPositions data) = count * 3 \<and> length (spherePositions data) = count * 3 \<and>
     length (fuyoPositions data) = count * 3 \<and> length (colors data) = count * 3"

text \<open>A group of one particle, at its tree target on the first and third axis.\<close>

definition exampleData :: particle_data where
  "exampleData =
     \<lparr>positions = [1, 2, 3], targetPositions = [1, 5, 3], randomPositions = [4, 4, 4],
      spherePositions = [0, 0, 25], fuyoPositions = [0, 0, 0], colors = [0, 1, 0]\<rparr>"

text \<open>The current value at buffer index \<open>j\<close> after a step, when the step has a result.\<close>

definition axisOf :: "js_error + particle_data \<Rightarrow> nat \<Rightarrow> real option" where
  "axisOf r j = (case r of Inl e \<Rightarrow> None | Inr data \<Rightarrow> Some (positions data ! j))"

text \<open>The absolute offset of the current value from the target of mode \<open>m\<close> at index \<open>j\<close>.\<close>

definition offsetOf :: "shape_mode \<Rightarrow> js_error + particle_data \<Rightarrow> nat \<Rightarrow> real option" where
  "offsetOf m r j =
     (case r of Inl e \<Rightarrow> None
      | Inr data \<Rightarrow> Some \<bar>positions data ! j - targetOf m data ! j\<bar>)"

text \<open>
  Measuring the colour choice: the midpoints of \<open>n\<close> equal cells of the interval from 0
  to 1 stand for a uniform draw, and \<open>countColor c n\<close> counts the pairs of such draws, out
  of \<open>n * n\<close>, for which lines 349 to 351 choose the colour \<open>c\<close>.
\<close>

definition midpoints :: "nat \<Rightarrow> real list" where
  "midpoints n = map (\<lambda>a. (real a + 0.5) / real n) [0..<n]"

definition countColor :: "palette \<Rightarrow> nat \<Rightarrow> nat" where
  "countColor c n =
     length (filter (\<lambda>(u1, u2). pickColor u1 u2 = c) (List.product (midpoints n) (midpoints n)))"

section \<open>Properties of the gesture classifier\<close>

lemma andThen_Inr [simp]: "andThen (Inr v) f = f v"
  by (simp add: andThen_def)

lemma andThen_Inl [simp]: "andThen (Inl e) f = Inl e"
  by (simp add: andThen_def)

lemma andThen_eq_Inr: "andThen r f = Inr v \<longleftrightarrow> (\<exists>a. r = Inr a \<and> f a = Inr v)"
  by (cases r) simp_all

lemma hypot_zero_left [simp]: "hypot 0 b = \<bar>b\<bar>"
  by (simp add: hypot_def)

lemma landmarkAt_in_range:
  "20 < length lms \<Longrightarrow> k \<le> 20 \<Longrightarrow> landmarkAt lms k = Inr (lms ! k)"
  by (simp add: landmarkAt_def)

lemma landmarkAt_Inr_iff: "landmarkAt lms k = Inr l \<longleftrightarrow> k < length lms \<and> l = lms ! k"
  by (auto simp add: landmarkAt_def)

text \<open>The loop reads landmark 20, so it only returns on a hand with all 21 landmarks.\<close>

lemma openFingers_length: "openFingers lms = Inr n \<Longrightarrow> 20 < length lms"
  by (auto simp add: openFingers_def tips_def bases_def andThen_eq_Inr landmarkAt_Inr_iff)

lemma openFingers_total: "20 < length lms \<Longrightarrow> \<exists>n. openFingers lms = Inr n"
  by (simp add: openFingers_def tips_def bases_def landmarkAt_in_range)

lemma openFingers_le: "openFingers lms = Inr n \<Longrightarrow> n \<le> 4"
  by (auto simp add: openFingers_def tips_def bases_def andThen_eq_Inr landmarkAt_Inr_iff
      split: if_splits)

text \<open>The decision of \<open>Detect States\<close> in one formula, in the order of the tests.\<close>

lemma detectStates_mode:
  assumes "20 < length lms"
  shows "modeOf (detectStates lms n st) = Some
     (if 3 \<le> n then EXPLODE
      else if thumbIndexDist lms < 0.05 then SPHERE
      else if n = 2 \<and> isIndexOpen lms \<and> isMiddleOpen lms then FUYO
      else TREE)"
  using assms
  by (simp add: detectStates_def modeOf_def landmarkAt_in_range thumbIndexDist_def
      isIndexOpen_def isMiddleOpen_def)

text \<open>Mode and rotation speed are those of the first hand, whatever the other hands are.\<close>

lemma handleGestures_first_hand:
  assumes "landmarks result = Some (lms # others)" and "openFingers lms = Inr n"
  shows "modeOf (handleGestures result st) = modeOf (detectStates lms n st)"
    and "speedOf (handleGestures result st) = Some ((lm_x (lms ! 9) - 0.5) * 5)"
proof -
  have len: "20 < length lms"
    using assms(2) by (rule openFingers_length)
  then obtain st' where st': "detectStates lms n st = Inr st'"
    using detectStates_mode [OF len, of n st]
    by (cases "detectStates lms n st") (simp_all add: modeOf_def)
  show "modeOf (handleGestures result st) = modeOf (detectStates lms n st)"
    using assms len st' by (simp add: handleGestures_def landmarkAt_in_range modeOf_def)
  show "speedOf (handleGestures result st) = Some ((lm_x (lms ! 9) - 0.5) * 5)"
    using assms len st' by (simp add: handleGestures_def landmarkAt_in_range speedOf_def)
qed

subsection \<open>The example hands\<close>

lemma openFingers_openPalm: "openFingers openPalm = Inr 4"
  by (simp add: openFingers_def tips_def bases_def openPalm_def handOnLine_def
      landmarkAt_def fartherThan_def)

lemma openFingers_openPinched: "openFingers openPinched = Inr 4"
  by (simp add: openFingers_def tips_def bases_def openPinched_def handOnLine_def
      landmarkAt_def fartherThan_def)

lemma openFingers_fist: "openFingers fist = Inr 0"
  by (simp add: openFingers_def tips_def bases_def fist_def handOnLine_def
      landmarkAt_def fartherThan_def)

lemma openFingers_pinchHand: "openFingers pinchHand = Inr 0"
  by (simp add: openFingers_def tips_def bases_def pinchHand_def handOnLine_def
      landmarkAt_def fartherThan_def)

lemma openFingers_victoryHand: "openFingers victoryHand = Inr 2"
  by (simp add: openFingers_def tips_def bases_def victoryHand_def handOnLine_def
      landmarkAt_def fartherThan_def)

lemma thumbIndexDist_openPinched: "thumbIndexDist openPinched = 0"
  by (simp add: thumbIndexDist_def openPinched_def handOnLine_def)

lemma thumbIndexDist_fist: "thumbIndexDist fist = 0.2"
  by (simp add: thumbIndexDist_def fist_def handOnLine_def)

lemma thumbIndexDist_pinchHand: "thumbIndexDist pinchHand = 0.02"
  by (simp add: thumbIndexDist_def pinchHand_def handOnLine_def)

lemma thumbIndexDist_victoryHand: "thumbIndexDist victoryHand = 0.3"
  by (simp add: thumbIndexDist_def victoryHand_def handOnLine_def)

lemma victoryHand_open: "isIndexOpen victoryHand" "isMiddleOpen victoryHand"
  by (simp_all add: isIndexOpen_def isMiddleOpen_def fartherThan_def victoryHand_def
      handOnLine_def)

lemma mode_openPalm_first:
  "modeOf (handleGestures \<lparr>landmarks = Some (openPalm # others)\<rparr> st) = Some EXPLODE"
  using openFingers_length [OF openFingers_openPalm]
  by (simp add: handleGestures_first_hand(1) [OF _ openFingers_openPalm] detectStates_mode)

lemma mode_fist_first:
  "modeOf (handleGestures \<lparr>landmarks = Some (fist # others)\<rparr> st) = Some TREE"
  using openFingers_length [OF openFingers_fist]
  by (simp add: handleGestures_first_hand(1) [OF _ openFingers_fist] detectStates_mode
      thumbIndexDist_fist)

subsection \<open>Open hand\<close>

text \<open>
  Claim C1, read as written: a detection result in which some hand has
  \<open>openFingers \<ge> 3\<close> sets the mode to EXPLODE. This fails when that hand is not the
  first one: for a fist followed by an open palm the script classifies the fist and sets
  TREE.
\<close>

theorem explode_any_hand_counterexample:
  "openPalm \<in> set [fist, openPalm] \<and> openFingers openPalm = Inr 4 \<and> (3::nat) \<le> 4
   \<and> modeOf (handleGestures \<lparr>landmarks = Some [fist, openPalm]\<rparr> startState) = Some TREE
   \<and> TREE \<noteq> EXPLODE"
  by (simp add: openFingers_openPalm mode_fist_first)

text \<open>
  Claim C1, amended: when the first hand of the detection result has
  \<open>openFingers \<ge> 3\<close> (counted by the 1.2 ratio test over the four non-thumb fingers on
  the \<open>x\<close> and \<open>y\<close> components), \<open>handleGestures\<close> returns without an error and the
  mode is EXPLODE. Nothing is assumed about the thumb-index distance, about the 1.1 ratio
  tests or about further hands: the test on \<open>openFingers\<close> decides before they are looked at.
\<close>

theorem handleGestures_explode:
  assumes "landmarks result = Some (lms # others)"
    and "openFingers lms = Inr n" and "3 \<le> n"
  shows "modeOf (handleGestures result st) = Some EXPLODE"
  using assms handleGestures_first_hand(1) [OF assms(1,2), of st]
    detectStates_mode [OF openFingers_length [OF assms(2)], of n st]
  by simp

text \<open>The witness is an open hand whose thumb tip touches the index tip.\<close>

theorem handleGestures_explode_witness:
  "landmarks \<lparr>landmarks = Some [openPinched, fist]\<rparr> = Some (openPinched # [fist])
   \<and> openFingers openPinched = Inr 4 \<and> (3::nat) \<le> 4
   \<and> thumbIndexDist openPinched < 0.05
   \<and> modeOf (handleGestures \<lparr>landmarks = Some [openPinched, fist]\<rparr> startState) = Some EXPLODE"
  using handleGestures_explode
    [of "\<lparr>landmarks = Some [openPinched, fist]\<rparr>" openPinched "[fist]" 4 startState]
  by (simp add: openFingers_openPinched thumbIndexDist_openPinched)

subsection \<open>Pinch\<close>

text \<open>
  Claim C2, read as written: a detection result in which some hand has \<open>openFingers < 3\<close>
  and a thumb-index distance below 0.05 sets the mode to SPHERE. This fails when that hand
  is not the first one: for an open palm followed by a pinching hand the mode is EXPLODE.
\<close>

theorem sphere_any_hand_counterexample:
  "pinchHand \<in> set [openPalm, pinchHand] \<and> openFingers pinchHand = Inr 0 \<and> (0::nat) < 3
   \<and> thumbIndexDist pinchHand < 0.05
   \<and> modeOf (handleGestures \<lparr>landmarks = Some [openPalm, pinchHand]\<rparr> startState) = Some EXPLODE
   \<and> EXPLODE \<noteq> SPHERE"
  by (simp add: openFingers_pinchHand thumbIndexDist_pinchHand mode_openPalm_first)

text \<open>
  Claim C2, amended: when the first hand of the detection result has \<open>openFingers < 3\<close>
  and the distance of its thumb tip (landmark 4) from its index tip (landmark 8), taken
  on the \<open>x\<close> and \<open>y\<close> components, is strictly below 0.05, \<open>handleGestures\<close> returns
  without an error and the mode is SPHERE.
\<close>

theorem handleGestures_sphere:
  assumes "landmarks result = Some (lms # others)"
    and "openFingers lms = Inr n" and "n < 3" and "thumbIndexDist lms < 0.05"
  shows "modeOf (handleGestures result st) = Some SPHERE"
  using assms handleGestures_first_hand(1) [OF assms(1,2), of st]
    detectStates_mode [OF openFingers_length [OF assms(2)], of n st]
  by simp

theorem handleGestures_sphere_witness:
  "landmarks \<lparr>landmarks = Some [pinchHand]\<rparr> = Some (pinchHand # [])
   \<and> openFingers pinchHand = Inr 0 \<and> (0::nat) < 3 \<and> thumbIndexDist pinchHand < 0.05
   \<and> modeOf (handleGestures \<lparr>landmarks = Some [pinchHand]\<rparr> startState) = Some SPHERE"
  using handleGestures_sphere [of "\<lparr>landmarks = Some [pinchHand]\<rparr>" pinchHand "[]" 0 startState]
  by (simp add: openFingers_pinchHand thumbIndexDist_pinchHand)

subsection \<open>Victory sign and closed hand\<close>

text \<open>
  Claim C3, read as written: a detection result in which some hand has
  \<open>openFingers = 2\<close>, a thumb-index distance of at least 0.05 and index and middle finger
  open by the 1.1 ratio test sets the mode to FUYO. This fails when that hand is not the
  first one: for an open palm followed by a victory sign the mode is EXPLODE.
\<close>

theorem victory_any_hand_counterexample:
  "victoryHand \<in> set [openPalm, victoryHand] \<and> openFingers victoryHand = Inr 2
   \<and> 0.05 \<le> thumbIndexDist victoryHand \<and> isIndexOpen victoryHand \<and> isMiddleOpen victoryHand
   \<and> modeOf (handleGestures \<lparr>landmarks = Some [openPalm, victoryHand]\<rparr> startState) = Some EXPLODE
   \<and> EXPLODE \<noteq> FUYO"
  by (simp add: openFingers_victoryHand thumbIndexDist_victoryHand victoryHand_open
      mode_openPalm_first)

text \<open>
  Claim C3, amended: when the first hand of the detection result has \<open>openFingers < 3\<close>
  and a thumb-index distance of at least 0.05, \<open>handleGestures\<close> returns without an
  error; the mode is FUYO if \<open>openFingers = 2\<close> and both the index and the middle finger
  are open by the 1.1 ratio test, and TREE in every other case.
\<close>

theorem handleGestures_victory_or_tree:
  assumes "landmarks result = Some (lms # others)"
    and "openFingers lms = Inr n" and "n < 3" and "0.05 \<le> thumbIndexDist lms"
  shows "modeOf (handleGestures result st)
     = Some (if n = 2 \<and> isIndexOpen lms \<and> isMiddleOpen lms then FUYO else TREE)"
  using assms handleGestures_first_hand(1) [OF assms(1,2), of st]
    detectStates_mode [OF openFingers_length [OF assms(2)], of n st]
  by simp

text \<open>The witness has one hand for each outcome: a victory sign and a fist.\<close>

theorem handleGestures_victory_or_tree_witness:
  "landmarks \<lparr>landmarks = Some [victoryHand]\<rparr> = Some (victoryHand # [])
   \<and> openFingers victoryHand = Inr 2 \<and> (2::nat) < 3 \<and> 0.05 \<le> thumbIndexDist victoryHand
   \<and> isIndexOpen victoryHand \<and> isMiddleOpen victoryHand
   \<and> modeOf (handleGestures \<lparr>landmarks = Some [victoryHand]\<rparr> startState) = Some FUYO
   \<and> landmarks \<lparr>landmarks = Some [fist]\<rparr> = Some (fist # [])
   \<and> openFingers fist = Inr 0 \<and> (0::nat) < 3 \<and> 0.05 \<le> thumbIndexDist fist
   \<and> modeOf (handleGestures \<lparr>landmarks = Some [fist]\<rparr> startState) = Some TREE"
  using handleGestures_victory_or_tree
      [of "\<lparr>landmarks = Some [victoryHand]\<rparr>" victoryHand "[]" 2 startState]
    handleGestures_victory_or_tree [of "\<lparr>landmarks = Some [fist]\<rparr>" fist "[]" 0 startState]
  by (simp add: openFingers_victoryHand openFingers_fist thumbIndexDist_victoryHand
      thumbIndexDist_fist victoryHand_open)

subsection \<open>No hand\<close>

text \<open>
  Claim C4: for a detection result with no hand (an empty \<open>result.landmarks\<close>, or none at
  all) \<open>handleGestures\<close> raises no error, sets the mode to TREE and the rotation speed to
  1.0; the outcome depends on nothing else.
\<close>

theorem handleGestures_no_hand:
  assumes "landmarks result = Some [] \<or> landmarks result = None"
  shows "handleGestures result st
     = Inr (st\<lparr>mode := TREE, statusText := ''Status: No hand detected (Auto Tree)'',
               statusColor := ''#fff'', autoRotateSpeed := 1.0\<rparr>)"
  using assms by (auto simp add: handleGestures_def)

theorem handleGestures_no_hand_witness:
  "(landmarks \<lparr>landmarks = Some []\<rparr> = Some [] \<or> landmarks \<lparr>landmarks = Some []\<rparr> = None)
   \<and> modeOf (handleGestures \<lparr>landmarks = Some []\<rparr>
         (startState\<lparr>mode := SPHERE, autoRotateSpeed := -2\<rparr>)) = Some TREE
   \<and> speedOf (handleGestures \<lparr>landmarks = Some []\<rparr>
         (startState\<lparr>mode := SPHERE, autoRotateSpeed := -2\<rparr>)) = Some 1.0"
  using handleGestures_no_hand
    [of "\<lparr>landmarks = Some []\<rparr>" "startState\<lparr>mode := SPHERE, autoRotateSpeed := -2\<rparr>"]
  by (simp add: modeOf_def speedOf_def)

subsection \<open>Rotation speed\<close>

text \<open>
  Claim C5: for a detection result with at least one hand (of 21 landmarks, as the
  detector delivers them) \<open>handleGestures\<close> returns, and the rotation speed it sets is
  \<open>(handX - 0.5) * 5\<close> for the \<open>x\<close> coordinate \<open>handX\<close> of landmark 9 of the first hand.
\<close>

theorem handleGestures_rotation:
  assumes "landmarks result = Some (lms # others)" and "20 < length lms"
  shows "speedOf (handleGestures result st) = Some ((lm_x (lms ! 9) - 0.5) * 5)"
proof -
  obtain n where "openFingers lms = Inr n"
    using openFingers_total [OF assms(2)] by blast
  then show ?thesis
    using assms(1) by (rule handleGestures_first_hand(2) [rotated])
qed

theorem handleGestures_rotation_witness:
  "landmarks \<lparr>landmarks = Some [victoryHand, fist]\<rparr> = Some (victoryHand # [fist])
   \<and> 20 < length victoryHand
   \<and> lm_x (victoryHand ! 9) = 0.7
   \<and> speedOf (handleGestures \<lparr>landmarks = Some [victoryHand, fist]\<rparr> startState) = Some 1"
  using handleGestures_rotation
    [of "\<lparr>landmarks = Some [victoryHand, fist]\<rparr>" victoryHand "[fist]" startState]
  by (simp add: victoryHand_def handOnLine_def)

section \<open>Properties of the animation step\<close>

lemma lerpAt_in_range:
  "j < length current \<Longrightarrow> length target = length current \<Longrightarrow>
   lerpAt target current j = Inr (current[j := current ! j + (target ! j - current ! j) * lerpSpeed])"
  by (simp add: lerpAt_def)

lemma animateParticle_in_range:
  assumes "i * 3 + 2 < length current" and "length target = length current"
  shows "animateParticle target i current = Inr (current
      [i * 3 := current ! (i * 3) + (target ! (i * 3) - current ! (i * 3)) * lerpSpeed,
       i * 3 + 1 := current ! (i * 3 + 1) + (target ! (i * 3 + 1) - current ! (i * 3 + 1)) * lerpSpeed,
       i * 3 + 2 := current ! (i * 3 + 2) + (target ! (i * 3 + 2) - current ! (i * 3 + 2)) * lerpSpeed])"
  using assms by (simp add: animateParticle_def lerpAt_in_range)

lemma forEach_append: "forEach (xs @ ys) f s = andThen (forEach xs f s) (forEach ys f)"
  by (induction xs arbitrary: s) (auto simp add: andThen_def split: sum.splits)

lemma forEach_animateParticle:
  assumes "length current = count * 3" and "length target = count * 3" and "n \<le> count"
  shows "\<exists>c. forEach [0..<n] (animateParticle target) current = Inr c
           \<and> length c = count * 3
           \<and> (\<forall>j < count * 3. c ! j =
                 (if j < n * 3 then current ! j + (target ! j - current ! j) * lerpSpeed
                  else current ! j))"
  using assms(3)
proof (induction n)
  case 0
  then show ?case using assms(1) by simp
next
  case (Suc n)
  then obtain c where c: "forEach [0..<n] (animateParticle target) current = Inr c"
    "length c = count * 3"
    "\<And>j. j < count * 3 \<Longrightarrow> c ! j =
        (if j < n * 3 then current ! j + (target ! j - current ! j) * lerpSpeed else current ! j)"
    by auto
  have n: "n * 3 + 2 < length c" "length target = length c"
    using Suc.prems c(2) assms(2) by simp_all
  have c0: "c ! (n * 3) = current ! (n * 3)" "c ! (n * 3 + 1) = current ! (n * 3 + 1)"
    "c ! (n * 3 + 2) = current ! (n * 3 + 2)"
    using Suc.prems by (simp_all add: c(3))
  show ?case
    using n c(2) Suc.prems
    by (auto simp add: forEach_append c(1) animateParticle_in_range [OF n] c0 c(3) nth_list_update)
qed

lemma count_of_length: "nat \<lceil>real (count * 3) / 3\<rceil> = count"
  by simp

lemma length_targetOf: "wellFormed count data \<Longrightarrow> length (targetOf m data) = count * 3"
  by (simp add: wellFormed_def targetOf_def)

lemma animateGroup_step:
  assumes "wellFormed count data"
  shows "\<exists>c. animateGroup m data = Inr (data\<lparr>positions := c\<rparr>) \<and> length c = count * 3
           \<and> (\<forall>j < count * 3. c ! j =
                positions data ! j + (targetOf m data ! j - positions data ! j) * lerpSpeed)"
proof -
  have len: "length (positions data) = count * 3"
    using assms by (simp add: wellFormed_def)
  obtain c where c: "forEach [0..<count] (animateParticle (targetOf m data)) (positions data) = Inr c"
    "length c = count * 3"
    "\<forall>j < count * 3. c ! j =
        (if j < count * 3 then positions data ! j + (targetOf m data ! j - positions data ! j) * lerpSpeed
         else positions data ! j)"
    using forEach_animateParticle [OF len length_targetOf [OF assms, of m] order_refl] by blast
  show ?thesis
    using c by (intro exI [of _ c]) (simp add: animateGroup_def len Let_def)
qed

lemma animateFrames_closed_form:
  assumes "wellFormed count data"
  shows "\<exists>data'. animateFrames k m data = Inr data' \<and> wellFormed count data'
           \<and> targetOf m data' = targetOf m data
           \<and> (\<forall>j < count * 3. positions data' ! j - targetOf m data ! j =
                 (1 - lerpSpeed) ^ k * (positions data ! j - targetOf m data ! j))"
  using assms
proof (induction k arbitrary: data)
  case 0
  then show ?case by simp
next
  case (Suc k)
  obtain c where c: "animateGroup m data = Inr (data\<lparr>positions := c\<rparr>)" "length c = count * 3"
    "\<And>j. j < count * 3 \<Longrightarrow> c ! j =
        positions data ! j + (targetOf m data ! j - positions data ! j) * lerpSpeed"
    using animateGroup_step [OF Suc.prems, of m] by blast
  let ?d = "data\<lparr>positions := c\<rparr>"
  have wf: "wellFormed count ?d"
    using Suc.prems c(2) by (simp add: wellFormed_def)
  have tgt: "targetOf m ?d = targetOf m data"
    by (simp add: targetOf_def)
  obtain data' where d: "animateFrames k m ?d = Inr data'" "wellFormed count data'"
    "targetOf m data' = targetOf m ?d"
    "\<And>j. j < count * 3 \<Longrightarrow> positions data' ! j - targetOf m ?d ! j =
        (1 - lerpSpeed) ^ k * (positions ?d ! j - targetOf m ?d ! j)"
    using Suc.IH [OF wf] by blast
  have "positions data' ! j - targetOf m data ! j =
      (1 - lerpSpeed) ^ Suc k * (positions data ! j - targetOf m data ! j)"
    if "j < count * 3" for j
  proof -
    have "positions data' ! j - targetOf m data ! j
        = (1 - lerpSpeed) ^ k * (c ! j - targetOf m data ! j)"
      using d(4) [OF that] by (simp add: tgt)
    also have "c ! j - targetOf m data ! j
        = (1 - lerpSpeed) * (positions data ! j - targetOf m data ! j)"
      by (simp add: c(3) [OF that] algebra_simps)
    finally show ?thesis by simp
  qed
  then show ?case
    using c(1) d(1,2,3) tgt by simp
qed

lemma lerpSpeed_bounds: "0 < 1 - lerpSpeed" "1 - lerpSpeed < 1"
  by (simp_all add: lerpSpeed_def)

lemma offsetOf_animateFrames:
  assumes "wellFormed count data" and "j < count * 3"
  shows "offsetOf m (animateFrames k m data) j
     = Some ((1 - lerpSpeed) ^ k * \<bar>positions data ! j - targetOf m data ! j\<bar>)"
proof -
  obtain data' where d: "animateFrames k m data = Inr data'"
    "targetOf m data' = targetOf m data"
    "\<And>j. j < count * 3 \<Longrightarrow> positions data' ! j - targetOf m data ! j =
        (1 - lerpSpeed) ^ k * (positions data ! j - targetOf m data ! j)"
    using animateFrames_closed_form [OF assms(1), of k m] by blast
  show ?thesis
    using lerpSpeed_bounds(1)
    by (simp add: offsetOf_def d(1,2) d(3) [OF assms(2)] abs_mult)
qed

text \<open>
  Claim C7: in a group whose buffers have the same length, for every particle \<open>i\<close> and
  axis \<open>a\<close>: if the current value equals the value of the target buffer selected by the
  mode, then the update step of one frame returns and leaves the current value as it is.
\<close>

theorem animateGroup_idempotent:
  assumes "wellFormed count data" and "i < count" and "a < 3"
    and "positions data ! (i * 3 + a) = targetOf m data ! (i * 3 + a)"
  shows "axisOf (animateGroup m data) (i * 3 + a) = Some (positions data ! (i * 3 + a))"
proof -
  have j: "i * 3 + a < count * 3"
    using assms(2,3) by simp
  obtain c where c: "animateGroup m data = Inr (data\<lparr>positions := c\<rparr>)"
    "\<And>j. j < count * 3 \<Longrightarrow> c ! j =
        positions data ! j + (targetOf m data ! j - positions data ! j) * lerpSpeed"
    using animateGroup_step [OF assms(1), of m] by blast
  show ?thesis
    by (simp add: axisOf_def c(1) c(2) [OF j] assms(4))
qed

text \<open>The witness is the third axis of the example group, which is at its tree target.\<close>

theorem animateGroup_idempotent_witness:
  "wellFormed 1 exampleData \<and> (0::nat) < 1 \<and> (2::nat) < 3
   \<and> positions exampleData ! (0 * 3 + 2) = targetOf TREE exampleData ! (0 * 3 + 2)
   \<and> axisOf (animateGroup TREE exampleData) (0 * 3 + 2) = Some 3"
  using animateGroup_idempotent [of 1 exampleData 0 2 TREE]
  by (simp add: wellFormed_def exampleData_def targetOf_def)

text \<open>
  Claim C8: with the mode held fixed (the target buffers are never written), for every
  particle \<open>i\<close>, axis \<open>a\<close> and number \<open>k\<close> of frames, the absolute offset of the
  current value from its target after \<open>k\<close> frames is \<open>(1 - lerpSpeed) ^ k\<close> times the
  offset at the start, the offset after one more frame is \<open>(1 - lerpSpeed)\<close> times the
  offset before it, \<open>lerpSpeed\<close> is 0.05, and for a nonzero offset at the start that
  step is a strict decrease. The arithmetic is exact.
\<close>

theorem animateFrames_contracts:
  assumes "wellFormed count data" and "i < count" and "a < 3"
  shows "offsetOf m (animateFrames k m data) (i * 3 + a)
           = Some ((1 - lerpSpeed) ^ k * \<bar>positions data ! (i * 3 + a) - targetOf m data ! (i * 3 + a)\<bar>)
     \<and> offsetOf m (animateFrames (Suc k) m data) (i * 3 + a)
           = Some ((1 - lerpSpeed) * ((1 - lerpSpeed) ^ k
                * \<bar>positions data ! (i * 3 + a) - targetOf m data ! (i * 3 + a)\<bar>))
     \<and> lerpSpeed = 0.05
     \<and> (positions data ! (i * 3 + a) \<noteq> targetOf m data ! (i * 3 + a) \<longrightarrow>
          (1 - lerpSpeed) * ((1 - lerpSpeed) ^ k
              * \<bar>positions data ! (i * 3 + a) - targetOf m data ! (i * 3 + a)\<bar>)
          < (1 - lerpSpeed) ^ k * \<bar>positions data ! (i * 3 + a) - targetOf m data ! (i * 3 + a)\<bar>)"
proof -
  have j: "i * 3 + a < count * 3"
    using assms(2,3) by simp
  let ?d = "\<bar>positions data ! (i * 3 + a) - targetOf m data ! (i * 3 + a)\<bar>"
  have pos: "0 < (1 - lerpSpeed) ^ k"
    using lerpSpeed_bounds(1) by simp
  have "(1 - lerpSpeed) * ((1 - lerpSpeed) ^ k * ?d) < (1 - lerpSpeed) ^ k * ?d"
    if "positions data ! (i * 3 + a) \<noteq> targetOf m data ! (i * 3 + a)"
  proof -
    have "0 < (1 - lerpSpeed) ^ k * ?d"
      using pos that by simp
    then have "(1 - lerpSpeed) * ((1 - lerpSpeed) ^ k * ?d) < 1 * ((1 - lerpSpeed) ^ k * ?d)"
      by (rule mult_strict_right_mono [OF lerpSpeed_bounds(2)])
    then show ?thesis
      by simp
  qed
  then show ?thesis
    using offsetOf_animateFrames [OF assms(1) j, of m k]
      offsetOf_animateFrames [OF assms(1) j, of m "Suc k"]
    by (simp add: lerpSpeed_def)
qed

text \<open>The witness is the second axis of the example group, 3 away from its tree target.\<close>

theorem animateFrames_contracts_witness:
  "wellFormed 1 exampleData \<and> (0::nat) < 1 \<and> (1::nat) < 3
   \<and> offsetOf TREE (animateFrames 2 TREE exampleData) (0 * 3 + 1) = Some 2.7075
   \<and> offsetOf TREE (animateFrames (Suc 2) TREE exampleData) (0 * 3 + 1) = Some 2.572125
   \<and> (2.572125::real) < 2.7075"
  using animateFrames_contracts [of 1 exampleData 0 1 TREE 2]
  by (simp add: wellFormed_def exampleData_def targetOf_def lerpSpeed_def power2_eq_square)

section \<open>Properties of the shape generators\<close>

lemma length_setXYZ [simp]: "length (setXYZ buf i p) = length buf"
  by (cases p) (simp add: setXYZ_def)

lemma pointAt_setXYZ_same:
  "i * 3 + 2 < length buf \<Longrightarrow> pointAt (setXYZ buf i p) i = p"
  by (cases p) (simp add: setXYZ_def pointAt_def)

lemma pointAt_setXYZ_other:
  "i \<noteq> j \<Longrightarrow> pointAt (setXYZ buf i p) j = pointAt buf j"
  by (cases p) (auto simp add: setXYZ_def pointAt_def nth_list_update)

lemma spherical_norm:
  fixes r :: real
  assumes "sp\<^sup>2 + cp\<^sup>2 = 1" and "st\<^sup>2 + ct\<^sup>2 = 1"
  shows "(r * sp * ct)\<^sup>2 + (r * sp * st)\<^sup>2 + (r * cp)\<^sup>2 = r\<^sup>2"
proof -
  have "(r * sp * ct)\<^sup>2 + (r * sp * st)\<^sup>2 + (r * cp)\<^sup>2
      = r\<^sup>2 * (sp\<^sup>2 * (st\<^sup>2 + ct\<^sup>2) + cp\<^sup>2)"
    by (simp add: power2_eq_square algebra_simps)
  also have "\<dots> = r\<^sup>2"
    using assms by simp
  finally show ?thesis .
qed

lemma dist0_spherePoint: "dist0 (spherePoint u1 u2) = 25"
proof -
  have "dist0 (spherePoint u1 u2) = sqrt (25\<^sup>2)"
    by (simp only: dist0_def spherePoint_def Let_def prod.case
        spherical_norm [OF sin_cos_squared_add sin_cos_squared_add])
  then show ?thesis
    by simp
qed

lemma dist0_explodePoint:
  assumes "0 \<le> u3"
  shows "dist0 (explodePoint u1 u2 u3) = u3 * EXPLOSION_RADIUS"
proof -
  have "dist0 (explodePoint u1 u2 u3) = sqrt ((u3 * EXPLOSION_RADIUS)\<^sup>2)"
    by (simp only: dist0_def explodePoint_def Let_def prod.case
        spherical_norm [OF sin_cos_squared_add sin_cos_squared_add])
  also have "\<dots> = \<bar>u3 * EXPLOSION_RADIUS\<bar>"
    by (rule real_sqrt_abs)
  also have "\<dots> = u3 * EXPLOSION_RADIUS"
    using assms by (simp add: EXPLOSION_RADIUS_def abs_mult)
  finally show ?thesis .
qed

lemma particleRound_counter: "snd (particleRound index fuyoAll rnd rgb i s) = snd s + 8"
  by (cases s) (simp add: particleRound_def Let_def)

lemma particleRound_invariant:
  assumes "\<forall>k. 0 \<le> rnd k \<and> rnd k < 1"
    and "wellFormed count (fst s)" and "n < count"
    and "\<forall>i < n. dist0 (pointAt (spherePositions (fst s)) i) = 25
           \<and> dist0 (pointAt (randomPositions (fst s)) i) < EXPLOSION_RADIUS"
  shows "wellFormed count (fst (particleRound index fuyoAll rnd rgb n s))
     \<and> (\<forall>i < Suc n. dist0 (pointAt (spherePositions (fst (particleRound index fuyoAll rnd rgb n s))) i) = 25
           \<and> dist0 (pointAt (randomPositions (fst (particleRound index fuyoAll rnd rgb n s))) i)
               < EXPLOSION_RADIUS)"
proof -
  obtain pData k where s: "s = (pData, k)"
    by (cases s)
  have len: "n * 3 + 2 < length (spherePositions pData)" "n * 3 + 2 < length (randomPositions pData)"
    using assms(2,3) by (simp_all add: wellFormed_def s)
  have ex: "dist0 (explodePoint u1 u2 (rnd j)) < EXPLOSION_RADIUS" for u1 u2 j
    using assms(1) by (simp add: dist0_explodePoint EXPLOSION_RADIUS_def)
  show ?thesis
    using assms(2,4) len
    by (auto simp add: s particleRound_def Let_def wellFormed_def less_Suc_eq
        pointAt_setXYZ_same pointAt_setXYZ_other dist0_spherePoint ex)
qed

lemma wellFormed_freshData: "wellFormed count (freshData count)"
  by (simp add: wellFormed_def freshData_def)

lemma particleRound_wellFormed:
  "wellFormed count (fst s) \<Longrightarrow> wellFormed count (fst (particleRound index fuyoAll rnd rgb i s))"
  by (cases s) (simp add: particleRound_def Let_def wellFormed_def)

text \<open>The generator establishes the invariant that the animation step relies on.\<close>

lemma makeGroup_wellFormed:
  "wellFormed (PARTICLE_COUNT div 3) (fst (makeGroup index fuyoAll rnd rgb k))"
proof -
  have "wellFormed count (fst (fold (particleRound index fuyoAll rnd rgb) [0..<n] (freshData count, k)))"
    for count n
    by (induction n) (simp_all add: wellFormed_freshData particleRound_wellFormed)
  then show ?thesis
    by (simp add: makeGroup_def Let_def)
qed

lemma fold_particleRound:
  assumes "\<forall>k. 0 \<le> rnd k \<and> rnd k < 1" and "n \<le> count"
  shows "wellFormed count (fst (fold (particleRound index fuyoAll rnd rgb) [0..<n] (freshData count, k)))
     \<and> (\<forall>i < n.
           dist0 (pointAt (spherePositions
             (fst (fold (particleRound index fuyoAll rnd rgb) [0..<n] (freshData count, k)))) i) = 25
         \<and> dist0 (pointAt (randomPositions
             (fst (fold (particleRound index fuyoAll rnd rgb) [0..<n] (freshData count, k)))) i)
               < EXPLOSION_RADIUS)"
  using assms(2)
proof (induction n)
  case 0
  then show ?case by (simp add: wellFormed_freshData)
next
  case (Suc n)
  then show ?case
    using particleRound_invariant [OF assms(1), of count
        "fold (particleRound index fuyoAll rnd rgb) [0..<n] (freshData count, k)" n index fuyoAll rgb]
    by simp
qed

text \<open>
  Claim C9: when every value of \<open>Math.random()\<close> lies in the interval from 0 to 1 (1
  excluded), every sphere-target point in the buffer \<open>spherePositions\<close> of a generated
  group has distance exactly 25 from the origin, and every explosion-target point in
  \<open>randomPositions\<close> has distance at most \<open>EXPLOSION_RADIUS\<close> from the origin. The
  arithmetic is exact.
\<close>

theorem makeGroup_radii:
  assumes "\<forall>k. 0 \<le> rnd k \<and> rnd k < 1" and "i < PARTICLE_COUNT div 3"
  shows "dist0 (pointAt (spherePositions (fst (makeGroup index fuyoAll rnd rgb k))) i) = 25
     \<and> dist0 (pointAt (randomPositions (fst (makeGroup index fuyoAll rnd rgb k))) i)
          \<le> EXPLOSION_RADIUS
     \<and> EXPLOSION_RADIUS = 80"
  using fold_particleRound [OF assms(1) order_refl, of "PARTICLE_COUNT div 3" index fuyoAll rgb k]
    assms(2)
  by (auto simp add: makeGroup_def Let_def less_imp_le EXPLOSION_RADIUS_def)

text \<open>The witness is particle 7 of the second letter, every draw being one half.\<close>

theorem makeGroup_radii_witness:
  "(0::real) \<le> 1 / 2 \<and> (1 / 2 :: real) < 1 \<and> 7 < PARTICLE_COUNT div 3
   \<and> dist0 (pointAt (spherePositions
         (fst (makeGroup 1 (replicate 9000 0) (\<lambda>k. 1 / 2) (\<lambda>c. (0, 1, 0)) 0))) 7) = 25
   \<and> dist0 (pointAt (randomPositions
         (fst (makeGroup 1 (replicate 9000 0) (\<lambda>k. 1 / 2) (\<lambda>c. (0, 1, 0)) 0))) 7) \<le> 80"
  using makeGroup_radii [of "\<lambda>k. 1 / 2" 7 1 "replicate 9000 0" "\<lambda>c. (0, 1, 0)" 0]
  by (simp add: PARTICLE_COUNT_def EXPLOSION_RADIUS_def)

section \<open>Properties of the colour choice\<close>

lemma upt_10: "[0..<10] = [0, 1, 2, 3, 4, 5, 6, 7, 8, 9]"
  by code_simp

lemma midpoints_10:
  "midpoints 10 = [0.05, 0.15, 0.25, 0.35, 0.45, 0.55, 0.65, 0.75, 0.85, 0.95]"
  by (simp add: midpoints_def upt_10)

lemma pickColor_regions:
  "(pickColor u1 u2 = Green \<longleftrightarrow> u1 \<le> 0.7 \<and> u2 \<le> 0.9)
   \<and> (pickColor u1 u2 = Gold \<longleftrightarrow> 0.7 < u1 \<and> u2 \<le> 0.9)
   \<and> (pickColor u1 u2 = Red \<longleftrightarrow> 0.9 < u2)"
  by (auto simp add: pickColor_def Let_def color1_def color2_def color3_def)

lemma countColor_10:
  "countColor Green 10 = 63 \<and> countColor Gold 10 = 27 \<and> countColor Red 10 = 10"
  by (simp add: countColor_def midpoints_10 pickColor_def Let_def color1_def color2_def
      color3_def)

text \<open>
  Claim C6 says that green, gold and red are chosen with probabilities 70%, 20% and 10%.
  The two tests of lines 350 and 351 use a draw each: red is chosen exactly when the
  second draw exceeds 0.9, gold when the first exceeds 0.7 and the second does not exceed
  0.9, green otherwise. For independent uniform draws that is 63%, 27% and 10%: of the
  100 pairs of cell midpoints of a 10 by 10 grid, 63 give green, 27 gold and 10 red.
\<close>

theorem pickColor_split:
  "(pickColor u1 u2 = Green \<longleftrightarrow> u1 \<le> 0.7 \<and> u2 \<le> 0.9)
   \<and> (pickColor u1 u2 = Gold \<longleftrightarrow> 0.7 < u1 \<and> u2 \<le> 0.9)
   \<and> (pickColor u1 u2 = Red \<longleftrightarrow> 0.9 < u2)
   \<and> countColor Green 10 = 63 \<and> countColor Gold 10 = 27 \<and> countColor Red 10 = 10"
  using pickColor_regions [of u1 u2] countColor_10 by simp

section \<open>Properties of the glyph positions\<close>

lemma validPixels_empty:
  assumes "\<forall>y < height. \<forall>x < width. \<not> bright imageData ((y * width + x) * 4)"
  shows "validPixels imageData = []"
  using assms by (simp add: validPixels_def)

lemma fuyoLoop_empty: "fuyoLoop [] rnd count i s = Inr s"
  by (subst fuyoLoop.simps) simp

text \<open>
  Claim C10: if no pixel of the rasterised glyph is brighter than the threshold 128 (the
  mask is empty), \<open>getFuyoPositions\<close> raises no error and returns the buffer of
  \<open>count * 3\<close> zeros it allocated, for every \<open>count\<close>; no random number is drawn.
\<close>

theorem getFuyoPositions_empty_mask:
  assumes "\<forall>y < height. \<forall>x < width. \<not> bright imageData ((y * width + x) * 4)"
  shows "getFuyoPositions imageData count rnd k = Inr (k, replicate (count * 3) 0)"
  by (simp add: getFuyoPositions_def validPixels_empty [OF assms] fuyoLoop_empty)

lemma not_bright_zeros: "\<not> bright (replicate n 0) j"
  by (simp add: bright_def)

text \<open>
  The witness is a canvas of 200 by 100 pixels whose 80000 bytes are all zero, with two
  particles requested.
\<close>

theorem getFuyoPositions_empty_mask_witness:
  "validPixels (replicate 80000 0) = []
   \<and> getFuyoPositions (replicate 80000 0) 2 (\<lambda>k. 1 / 2) 0 = Inr (0, [0, 0, 0, 0, 0, 0])"
proof -
  have six: "replicate (2 * 3) (0::real) = [0, 0, 0, 0, 0, 0]"
    by (simp add: numeral_eq_Suc)
  have dark: "\<forall>y < height. \<forall>x < width. \<not> bright (replicate 80000 0) ((y * width + x) * 4)"
    by (simp only: not_bright_zeros) simp
  show ?thesis
    using getFuyoPositions_empty_mask [OF dark, of 2 "\<lambda>k. 1 / 2" 0] validPixels_empty [OF dark]
    by (simp only: six)
qed

end
